theory Spec2Isabelle
  imports Main "HOL-Library.Multiset"
begin

section \<open>MeltScan: a shallow embedding of the port scanner\<close>

text \<open>
  The two source files, \<^verbatim>\<open>meltscan_cli.py\<close> and \<^verbatim>\<open>meltscan_gui.py\<close>, share the
  functions \<^verbatim>\<open>parse_targets\<close>, \<^verbatim>\<open>parse_ports\<close>, \<^verbatim>\<open>tcp_connect_scan\<close>,
  \<^verbatim>\<open>tcp_syn_scan\<close> and \<^verbatim>\<open>udp_scan\<close> line for line; one definition stands for both
  copies. Python text is modelled as a \<^typ>\<open>string\<close> whose characters are the code
  points 0 to 255; Python integers are \<^typ>\<open>int\<close>.
\<close>

subsection \<open>Text primitives of the Python runtime\<close>

text \<open>
  The white space of \<^verbatim>\<open>str.strip()\<close> and of the regular-expression class
  \<^verbatim>\<open>\s\<close> among the code points below 256: tab to carriage return, the four
  separators 0x1C to 0x1F, the blank, NEL and the no-break space.
\<close>

definition is_space :: "char \<Rightarrow> bool" where
  "is_space c =
     (let n = (of_char c :: nat)
      in (9 \<le> n \<and> n \<le> 13) \<or> (28 \<le> n \<and> n \<le> 32) \<or> n = 133 \<or> n = 160)"

definition strip :: "string \<Rightarrow> string" where
  "strip s = rev (dropWhile is_space (rev (dropWhile is_space s)))"

text \<open>
  \<^verbatim>\<open>re.split(r"[...]+", s)\<close>: the text between maximal runs of separator characters.
  A separator run at the very start or end leaves an empty string there, as Python does.
\<close>

function re_split :: "(char \<Rightarrow> bool) \<Rightarrow> string \<Rightarrow> string \<Rightarrow> string list" where
  "re_split sep cur [] = [rev cur]"
| "re_split sep cur (c # cs) =
     (if sep c then rev cur # re_split sep [] (dropWhile sep cs)
      else re_split sep (c # cur) cs)"
  by pat_completeness auto
termination
  by (relation "measure (\<lambda>(sep, cur, s). length s)")
     (auto simp: le_imp_less_Suc length_dropWhile_le)

text \<open>\<^verbatim>\<open>s.split(c)\<close> with an explicit one-character separator: every occurrence splits.\<close>

fun str_split :: "char \<Rightarrow> string \<Rightarrow> string list" where
  "str_split c [] = [[]]"
| "str_split c (x # xs) =
     (if x = c then [] # str_split c xs
      else (case str_split c xs of
              [] \<Rightarrow> [[x]]
            | t # ts \<Rightarrow> (x # t) # ts))"

text \<open>
  \<^verbatim>\<open>int(s)\<close> in base ten: surrounding white space is ignored, then an optional sign,
  then decimal digits, where a single underscore may stand between two digits. Anything
  else raises \<^verbatim>\<open>ValueError\<close>, which is \<^term>\<open>None\<close> here. (The interpreter's limit on the
  number of digits of very long literals is not modelled.)
\<close>

definition is_digit :: "char \<Rightarrow> bool" where
  "is_digit c = (48 \<le> (of_char c :: nat) \<and> (of_char c :: nat) \<le> 57)"

definition digit_val :: "char \<Rightarrow> int" where
  "digit_val c = int (of_char c) - 48"

fun py_digits :: "int \<Rightarrow> string \<Rightarrow> int option" where
  "py_digits acc [] = Some acc"
| "py_digits acc [c] =
     (if is_digit c then Some (acc * 10 + digit_val c) else None)"
| "py_digits acc (c # d # ds) =
     (if is_digit c then py_digits (acc * 10 + digit_val c) (d # ds)
      else if c = CHR ''_'' \<and> is_digit d then py_digits (acc * 10 + digit_val d) ds
      else None)"

definition py_unsigned :: "string \<Rightarrow> int option" where
  "py_unsigned s =
     (case s of
        [] \<Rightarrow> None
      | d # ds \<Rightarrow> if is_digit d then py_digits (digit_val d) ds else None)"

definition py_int :: "string \<Rightarrow> int option" where
  "py_int s =
     (case strip s of
        [] \<Rightarrow> None
      | c # cs \<Rightarrow>
          if c = CHR ''-'' then map_option uminus (py_unsigned cs)
          else if c = CHR ''+'' then py_unsigned cs
          else py_unsigned (c # cs))"

subsection \<open>The port parser\<close>

definition port_sep :: "char \<Rightarrow> bool" where
  "port_sep c = (is_space c \<or> c = CHR '','' \<or> c = CHR '';'')"

text \<open>
  One turn of the loop over \<^verbatim>\<open>parts\<close>. The \<^verbatim>\<open>try\<close> blocks catch every exception
  and \<^verbatim>\<open>continue\<close>, so a token that does not unpack into two parts, or a part that is
  not an integer, leaves the set as it was.
\<close>

definition port_token :: "string \<Rightarrow> int set \<Rightarrow> int set" where
  "port_token p ports =
     (if p = [] then ports
      else if CHR ''-'' \<in> set p then
        (case str_split CHR ''-'' p of
           [sa, sb] \<Rightarrow>
             (case py_int sa of
                None \<Rightarrow> ports
              | Some a0 \<Rightarrow>
                 (case py_int sb of
                    None \<Rightarrow> ports
                  | Some b0 \<Rightarrow>
                      (let a = (if a0 < 1 then 1 else a0);
                           b = (if b0 > 65535 then 65535 else b0)
                       in ports \<union> {min a b .. max a b})))
         | _ \<Rightarrow> ports)
      else
        (case py_int p of
           None \<Rightarrow> ports
         | Some val \<Rightarrow> if 1 \<le> val \<and> val \<le> 65535 then insert val ports else ports))"

definition parse_ports :: "string \<Rightarrow> int list" where
  "parse_ports text =
     (if text = [] then []
      else sorted_list_of_set
             (fold port_token (re_split port_sep [] (strip text)) {}))"

subsection \<open>The target parser\<close>

text \<open>
  \<^verbatim>\<open>ipaddress\<close> is Python's standard library, not code of this program, so the two
  calls the parser makes are parameters. \<^verbatim>\<open>ip_network(t, strict=False)\<close> either raises
  (\<^term>\<open>None\<close>) or yields a network, of which the parser only uses the texts
  \<^verbatim>\<open>str(ip)\<close> of \<^verbatim>\<open>net.hosts()\<close>; \<^verbatim>\<open>ip_address(t)\<close> either raises (\<^term>\<open>False\<close>) or
  accepts the text.
\<close>

record ipaddress =
  ip_network :: "string \<Rightarrow> string list option"
  ip_address :: "string \<Rightarrow> bool"

definition target_sep :: "char \<Rightarrow> bool" where
  "target_sep c = (c = CHR 0x0A \<or> c = CHR '','' \<or> c = CHR '';'')"

definition target_token :: "ipaddress \<Rightarrow> string \<Rightarrow> string list \<Rightarrow> string list" where
  "target_token lib token out =
     (let t = strip token
      in if t = [] then out
         else if CHR ''/'' \<in> set t then
           (case ip_network lib t of
              Some hosts \<Rightarrow> out @ hosts
            | None \<Rightarrow> if ip_address lib t then out @ [t] else out)
         else out @ [t])"

definition parse_targets :: "ipaddress \<Rightarrow> string \<Rightarrow> string list" where
  "parse_targets lib text =
     fold (target_token lib) (re_split target_sep [] (strip text)) []"

text \<open>
  A small stand-in for the library, used to run the parser on examples: it knows one
  network and one address, and like the real library it accepts no address text with a
  slash in it.
\<close>

definition tiny_ipaddress :: ipaddress where
  "tiny_ipaddress =
     \<lparr> ip_network = (\<lambda>t. if t = ''192.168.1.0/30''
                           then Some [''192.168.1.1'', ''192.168.1.2''] else None),
       ip_address = (\<lambda>t. t = ''10.0.0.1'') \<rparr>"

subsection \<open>Calls that may raise, and the sockets they hold\<close>

text \<open>
  A call into the socket library or into Scapy either returns a value or raises an
  exception, of which the program only ever uses the text \<^verbatim>\<open>str(e)\<close>. The exceptions
  are those that \<^verbatim>\<open>except Exception\<close> catches. A probe is a computation over the
  number of sockets the process holds open: it may return, or let an exception escape.
\<close>

datatype 'a outcome = Returns 'a | Raises string

type_synonym 'a prog = "nat \<Rightarrow> 'a outcome \<times> nat"

definition ret :: "'a \<Rightarrow> 'a prog" where
  "ret a = (\<lambda>h. (Returns a, h))"

definition call :: "'a outcome \<Rightarrow> 'a prog" where
  "call r = (\<lambda>h. (r, h))"

definition bind :: "'a prog \<Rightarrow> ('a \<Rightarrow> 'b prog) \<Rightarrow> 'b prog" where
  "bind m f =
     (\<lambda>h. case m h of
             (Returns a, h') \<Rightarrow> f a h'
           | (Raises e, h') \<Rightarrow> (Raises e, h'))"

text \<open>\<^verbatim>\<open>try: body except Exception as e: handler(str(e))\<close>\<close>

definition try_except :: "'a prog \<Rightarrow> (string \<Rightarrow> 'a prog) \<Rightarrow> 'a prog" where
  "try_except body handler =
     (\<lambda>h. case body h of
             (Returns a, h') \<Rightarrow> (Returns a, h')
           | (Raises e, h') \<Rightarrow> handler e h')"

text \<open>
  What the network and the libraries answer, as far as the probes look at it. The
  timeout is a Python float the program only passes on, so its type is left open.
  A reply packet is seen through \<^verbatim>\<open>haslayer\<close> and the TCP flags only.
\<close>

record reply =
  tcp_flags :: "nat option"
  has_udp :: bool

datatype probe_packet = TcpSyn string int | UdpDatagram string int

record 't net =
  SCAPY_AVAILABLE :: bool
  socket_new :: "unit outcome"
  sock_settimeout :: "'t \<Rightarrow> unit outcome"
  sock_connect_ex :: "string \<Rightarrow> int \<Rightarrow> 't \<Rightarrow> int outcome"
  sock_close :: "unit outcome"
  scapy_build :: "probe_packet \<Rightarrow> unit outcome"
  scapy_sr1 :: "probe_packet \<Rightarrow> 't \<Rightarrow> reply option outcome"

text \<open>
  \<^verbatim>\<open>socket.socket(...)\<close> opens a socket when it returns; \<^verbatim>\<open>sock.close()\<close> gives the
  descriptor back, whatever it reports.
\<close>

definition socket_socket :: "'t net \<Rightarrow> unit prog" where
  "socket_socket env =
     (\<lambda>h. case socket_new env of
             Returns u \<Rightarrow> (Returns u, Suc h)
           | Raises e \<Rightarrow> (Raises e, h))"

definition close_socket :: "'t net \<Rightarrow> unit prog" where
  "close_socket env = (\<lambda>h. (sock_close env, h - 1))"

subsection \<open>The three probes\<close>

definition tcp_connect_body :: "'t net \<Rightarrow> string \<Rightarrow> int \<Rightarrow> 't \<Rightarrow> (string \<times> string) prog" where
  "tcp_connect_body env target port timeout =
     bind (socket_socket env) (\<lambda>sock.
     bind (call (sock_settimeout env timeout)) (\<lambda>_.
     bind (call (sock_connect_ex env target port timeout)) (\<lambda>result.
     bind (close_socket env) (\<lambda>_.
     if result = 0 then ret (''open'', '''') else ret (''closed'', '''')))))"

definition tcp_connect_scan :: "'t net \<Rightarrow> string \<Rightarrow> int \<Rightarrow> 't \<Rightarrow> (string \<times> string) prog" where
  "tcp_connect_scan env target port timeout =
     try_except (tcp_connect_body env target port timeout)
                (\<lambda>e. ret (''unknown'', e))"

definition tcp_syn_body :: "'t net \<Rightarrow> string \<Rightarrow> int \<Rightarrow> 't \<Rightarrow> (string \<times> string) prog" where
  "tcp_syn_body env target port timeout =
     bind (call (scapy_build env (TcpSyn target port))) (\<lambda>pkt.
     bind (call (scapy_sr1 env (TcpSyn target port) timeout)) (\<lambda>resp.
     case resp of
       None \<Rightarrow> ret (''filtered'', ''Sem resposta'')
     | Some r \<Rightarrow>
         (case tcp_flags r of
            Some flags \<Rightarrow>
              if and flags 0x12 = 0x12 then ret (''open'', '''')
              else if and flags 0x14 = 0x14 then ret (''closed'', '''')
              else ret (''filtered'', ''Resposta inesperada'')
          | None \<Rightarrow> ret (''filtered'', ''Resposta inesperada''))))"

definition tcp_syn_scan :: "'t net \<Rightarrow> string \<Rightarrow> int \<Rightarrow> 't \<Rightarrow> (string \<times> string) prog" where
  "tcp_syn_scan env target port timeout =
     (if \<not> SCAPY_AVAILABLE env then tcp_connect_scan env target port timeout
      else try_except (tcp_syn_body env target port timeout)
                      (\<lambda>e. ret (''unknown'', e)))"

text \<open>The text \<^verbatim>\<open>Scapy nao disponivel\<close>, its two accented letters by code point.\<close>

definition scapy_missing :: string where
  "scapy_missing = ''Scapy n'' @ [CHR 0xE3] @ ''o dispon'' @ [CHR 0xED] @ ''vel''"

definition udp_body :: "'t net \<Rightarrow> string \<Rightarrow> int \<Rightarrow> 't \<Rightarrow> (string \<times> string) prog" where
  "udp_body env target port timeout =
     bind (call (scapy_build env (UdpDatagram target port))) (\<lambda>pkt.
     bind (call (scapy_sr1 env (UdpDatagram target port) timeout)) (\<lambda>resp.
     case resp of
       None \<Rightarrow> ret (''open|filtered'', ''Sem resposta'')
     | Some r \<Rightarrow>
         if has_udp r then ret (''open'', '''')
         else ret (''filtered'', ''Provavelmente filtrada'')))"

definition udp_scan :: "'t net \<Rightarrow> string \<Rightarrow> int \<Rightarrow> 't \<Rightarrow> (string \<times> string) prog" where
  "udp_scan env target port timeout =
     (if \<not> SCAPY_AVAILABLE env then ret (''unknown'', scapy_missing)
      else try_except (udp_body env target port timeout)
                      (\<lambda>e. ret (''unknown'', e)))"

text \<open>The closed enumeration of states, as the strings the probes return.\<close>

definition scan_states :: "string set" where
  "scan_states = {''open'', ''closed'', ''filtered'', ''open|filtered'', ''unknown''}"

text \<open>Environments for running the probes on examples; the timeout type is \<^typ>\<open>unit\<close>.\<close>

definition listening_net :: "unit net" where
  "listening_net =
     \<lparr> SCAPY_AVAILABLE = False,
       socket_new = Returns (),
       sock_settimeout = (\<lambda>_. Returns ()),
       sock_connect_ex = (\<lambda>_ _ _. Returns 0),
       sock_close = Returns (),
       scapy_build = (\<lambda>_. Raises ''no scapy''),
       scapy_sr1 = (\<lambda>_ _. Raises ''no scapy'') \<rparr>"

text \<open>
  \<^verbatim>\<open>connect_ex\<close> reports an error of the C-level \<^verbatim>\<open>connect()\<close> as its return value:
  111 is \<^verbatim>\<open>ECONNREFUSED\<close>, 11 is \<^verbatim>\<open>EAGAIN\<close> (the socket's timeout ran out) and 113 is
  \<^verbatim>\<open>EHOSTUNREACH\<close> on Linux. A name that does not resolve makes it raise.
\<close>

definition errno_net :: "int \<Rightarrow> unit net" where
  "errno_net code = listening_net \<lparr> sock_connect_ex := (\<lambda>_ _ _. Returns code) \<rparr>"

definition unresolved_net :: "unit net" where
  "unresolved_net =
     listening_net \<lparr> sock_connect_ex :=
                       (\<lambda>_ _ _. Raises ''[Errno -2] Name or service not known'') \<rparr>"

definition raw_net :: "reply option \<Rightarrow> unit net" where
  "raw_net answer =
     listening_net \<lparr> SCAPY_AVAILABLE := True,
                     scapy_build := (\<lambda>_. Returns ()),
                     scapy_sr1 := (\<lambda>_ _. Returns answer) \<rparr>"

subsection \<open>The scan engine of the graphical front end\<close>

record scan_result =
  target :: string
  proto :: string
  port :: int
  state :: string
  info :: string

type_synonym job = "string \<times> string \<times> int"

record 't settings =
  timeout :: 't
  tcp_mode :: string

text \<open>The two nested loops of \<^verbatim>\<open>start_scan\<close> that fill the queue.\<close>

definition enqueue_jobs :: "string list \<Rightarrow> int list \<Rightarrow> bool \<Rightarrow> bool \<Rightarrow> job list" where
  "enqueue_jobs targets ports tcp_var udp_var =
     concat (map (\<lambda>t. concat (map (\<lambda>p.
         (if tcp_var then [(t, ''tcp'', p)] else []) @
         (if udp_var then [(t, ''udp'', p)] else [])) ports)) targets)"

text \<open>The probe a worker picks for a job.\<close>

definition run_probe :: "'t net \<Rightarrow> 't settings \<Rightarrow> job \<Rightarrow> (string \<times> string) prog" where
  "run_probe env st j =
     (case j of (t, pr, p) \<Rightarrow>
        if pr = ''tcp'' then
          (if tcp_mode st = ''syn'' then tcp_syn_scan env t p (timeout st)
           else tcp_connect_scan env t p (timeout st))
        else udp_scan env t p (timeout st))"

text \<open>
  The worker threads share the queue, the result list and the stop event. Each thread
  is at one of four places of \<^verbatim>\<open>worker\<close>: at the head of the \<^verbatim>\<open>while\<close> loop, just after
  \<^verbatim>\<open>get_nowait\<close> returned a job, past the second test of the stop event (probing), or
  out of the loop. \<^verbatim>\<open>get_nowait\<close> and \<^verbatim>\<open>list.append\<close> are atomic, so a run is an
  interleaving of the steps below; \<^term>\<open>Cancel\<close> is \<^verbatim>\<open>stop_scan\<close> setting the event.
  The call of \<^verbatim>\<open>logfn\<close> cannot fail (its exceptions are swallowed) and changes nothing
  of this state. A probe that let an exception escape would end its thread.
\<close>

datatype wstate = LoopHead | Dequeued job | Probing job | Exited

record session =
  taskq :: "job list"
  results :: "scan_result list"
  stop_event :: bool
  handles :: nat
  workers :: "wstate list"

datatype action = Worker nat | Cancel

definition worker_step :: "'t net \<Rightarrow> 't settings \<Rightarrow> nat \<Rightarrow> session \<Rightarrow> session option" where
  "worker_step env st i s =
     (if length (workers s) \<le> i then None
      else case workers s ! i of
        Exited \<Rightarrow> None
      | LoopHead \<Rightarrow>
          if stop_event s then Some (s \<lparr> workers := (workers s)[i := Exited] \<rparr>)
          else (case taskq s of
                  [] \<Rightarrow> Some (s \<lparr> workers := (workers s)[i := Exited] \<rparr>)
                | j # q \<Rightarrow> Some (s \<lparr> taskq := q, workers := (workers s)[i := Dequeued j] \<rparr>))
      | Dequeued j \<Rightarrow>
          if stop_event s then Some (s \<lparr> workers := (workers s)[i := Exited] \<rparr>)
          else Some (s \<lparr> workers := (workers s)[i := Probing j] \<rparr>)
      | Probing j \<Rightarrow>
          (case run_probe env st j (handles s) of
             (Returns (sta, msg), h') \<Rightarrow>
               Some (s \<lparr> results := results s @
                           [\<lparr> target = fst j, proto = fst (snd j), port = snd (snd j),
                              state = sta, info = msg \<rparr>],
                         handles := h',
                         workers := (workers s)[i := LoopHead] \<rparr>)
           | (Raises e, h') \<Rightarrow>
               Some (s \<lparr> handles := h', workers := (workers s)[i := Exited] \<rparr>)))"

fun step :: "'t net \<Rightarrow> 't settings \<Rightarrow> action \<Rightarrow> session \<Rightarrow> session option" where
  "step env st (Worker i) s = worker_step env st i s"
| "step env st Cancel s = Some (s \<lparr> stop_event := True \<rparr>)"

fun exec :: "'t net \<Rightarrow> 't settings \<Rightarrow> action list \<Rightarrow> session \<Rightarrow> session option" where
  "exec env st [] s = Some s"
| "exec env st (a # as) s =
     (case step env st a s of
        None \<Rightarrow> None
      | Some s' \<Rightarrow> exec env st as s')"

text \<open>
  \<^verbatim>\<open>start_scan\<close> clears the results and the stop event, fills the queue, and
  \<^verbatim>\<open>run_workers\<close> starts \<^verbatim>\<open>max(1, min(500, num_threads))\<close> threads.
\<close>

definition start_session :: "job list \<Rightarrow> int \<Rightarrow> session" where
  "start_session jobs num_threads =
     \<lparr> taskq = jobs, results = [], stop_event = False, handles = 0,
       workers = replicate (nat (max 1 (min 500 num_threads))) LoopHead \<rparr>"

text \<open>\<^verbatim>\<open>run_workers\<close> has joined every thread.\<close>

definition completed :: "session \<Rightarrow> bool" where
  "completed s = list_all (\<lambda>w. w = Exited) (workers s)"

definition triple :: "scan_result \<Rightarrow> job" where
  "triple r = (target r, proto r, port r)"

fun held :: "wstate \<Rightarrow> job list" where
  "held (Dequeued j) = [j]"
| "held (Probing j) = [j]"
| "held LoopHead = []"
| "held Exited = []"

text \<open>
  The bookkeeping of a run that nobody cancelled: every job of the queue's first
  content is in the queue, in the hands of a thread, or has its result; and once a
  thread has left the loop the queue is empty.
\<close>

definition accounted :: "job list \<Rightarrow> session \<Rightarrow> bool" where
  "accounted jobs s =
     (\<not> stop_event s \<and> workers s \<noteq> []
      \<and> mset (map triple (results s)) + mset (taskq s)
          + mset (concat (map held (workers s))) = mset jobs
      \<and> (Exited \<in> set (workers s) \<longrightarrow> taskq s = []))"

text \<open>A settings dictionary and a run for the examples.\<close>

definition connect_settings :: "unit settings" where
  "connect_settings = \<lparr> timeout = (), tcp_mode = ''connect'' \<rparr>"

subsection \<open>Export\<close>














section \<open>Properties\<close>

subsection \<open>The port parser\<close>

lemma str_split_nonempty: "str_split c s \<noteq> []"
  by (induction s) (auto split: list.splits)

lemma str_split_single: "str_split c xs = [sb] \<Longrightarrow> xs = sb \<and> c \<notin> set sb"
  using str_split_nonempty[of c]
  by (induction xs arbitrary: sb) (auto split: if_splits list.splits)

lemma str_split_no_sep: "c \<notin> set s \<Longrightarrow> str_split c s = [s]"
  by (induction s) auto

lemma str_split_once:
  "c \<notin> set sa \<Longrightarrow> c \<notin> set sb \<Longrightarrow> str_split c (sa @ c # sb) = [sa, sb]"
  by (induction sa) (auto simp: str_split_no_sep)

lemma str_split_pair_iff:
  "str_split c p = [sa, sb] \<Longrightarrow> p = sa @ c # sb \<and> c \<notin> set sa \<and> c \<notin> set sb"
proof (induction p arbitrary: sa)
  case Nil then show ?case by simp
next
  case (Cons x xs)
  show ?case
  proof (cases "x = c")
    case True
    with Cons.prems have "sa = []" "str_split c xs = [sb]" by auto
    with str_split_single[of c xs sb] show ?thesis using True by auto
  next
    case False
    with Cons.prems obtain t where "str_split c xs = [t, sb]" "sa = x # t"
      by (auto split: list.splits)
    with Cons.IH[of t] False show ?thesis by auto
  qed
qed

text \<open>
  C6. A token \<^verbatim>\<open>a-b\<close> with exactly one dash whose two sides are integers: the
  resolver raises \<open>a\<close> to at least 1, lowers \<open>b\<close> to at most 65535, and adds every integer
  from the smaller to the larger of the two. A token with a dash that does not split
  into two integers is skipped. \<^verbatim>\<open>10-5\<close> gives 5 to 10, and \<^verbatim>\<open>70000\<close> gives nothing.
\<close>

theorem port_range_token:
  "(py_int sa = Some a \<and> py_int sb = Some b \<and> CHR ''-'' \<notin> set sa \<and> CHR ''-'' \<notin> set sb
      \<longrightarrow> port_token (sa @ ''-'' @ sb) ports =
            ports \<union> {min (max a 1) (min b 65535) .. max (max a 1) (min b 65535)})
   \<and> (CHR ''-'' \<in> set p \<and>
        (\<forall>sa sb. p = sa @ ''-'' @ sb \<and> CHR ''-'' \<notin> set sa \<and> CHR ''-'' \<notin> set sb
                   \<longrightarrow> py_int sa = None \<or> py_int sb = None)
      \<longrightarrow> port_token p ports = ports)
   \<and> parse_ports ''10-5'' = [5, 6, 7, 8, 9, 10]
   \<and> parse_ports ''70000'' = []"
proof (intro conjI impI)
  assume h: "py_int sa = Some a \<and> py_int sb = Some b \<and> CHR ''-'' \<notin> set sa \<and> CHR ''-'' \<notin> set sb"
  then have sp: "str_split CHR ''-'' (sa @ ''-'' @ sb) = [sa, sb]"
    by (simp add: str_split_once)
  have a1: "(if a < 1 then 1 else a) = max a 1" by simp
  have b1: "(if b > 65535 then 65535 else b) = min b 65535" by simp
  show "port_token (sa @ ''-'' @ sb) ports =
            ports \<union> {min (max a 1) (min b 65535) .. max (max a 1) (min b 65535)}"
    unfolding port_token_def sp using h by (simp add: a1 b1 Let_def del: max.absorb1 max.absorb2 min.absorb1 min.absorb2)
next
  assume h: "CHR ''-'' \<in> set p \<and>
        (\<forall>sa sb. p = sa @ ''-'' @ sb \<and> CHR ''-'' \<notin> set sa \<and> CHR ''-'' \<notin> set sb
                   \<longrightarrow> py_int sa = None \<or> py_int sb = None)"
  then have ne: "p \<noteq> []" by auto
  show "port_token p ports = ports"
  proof (cases "\<exists>sa sb. str_split CHR ''-'' p = [sa, sb]")
    case True
    then obtain sa sb where sp: "str_split CHR ''-'' p = [sa, sb]" by blast
    from str_split_pair_iff[OF sp] h have "py_int sa = None \<or> py_int sb = None" by simp
    then show ?thesis unfolding port_token_def sp using h ne
      by (auto split: option.splits)
  next
    case False
    then show ?thesis unfolding port_token_def using h ne
      by (auto split: list.splits)
  qed
next
  show "parse_ports ''10-5'' = [5, 6, 7, 8, 9, 10]" by code_simp
next
  show "parse_ports ''70000'' = []" by code_simp
qed

theorem port_range_token_witness:
  "port_token ''10-5'' {} = {5 .. 10} \<and> port_token ''5-x'' {7} = {7}
   \<and> port_token ''1-2-3'' {7} = {7}"
proof -
  have a: "py_int ''10'' = Some 10" "py_int ''5'' = Some 5" "py_int ''x'' = None"
    by code_simp+
  have d: "CHR ''-'' \<notin> set ''10''" "CHR ''-'' \<notin> set ''5''" by simp_all
  have f1: "\<forall>sa sb. ''5-x'' = sa @ ''-'' @ sb \<and> CHR ''-'' \<notin> set sa \<and> CHR ''-'' \<notin> set sb
                   \<longrightarrow> py_int sa = None \<or> py_int sb = None"
  proof (intro allI impI)
    fix sa sb
    assume h: "''5-x'' = sa @ ''-'' @ sb \<and> CHR ''-'' \<notin> set sa \<and> CHR ''-'' \<notin> set sb"
    then have "str_split CHR ''-'' ''5-x'' = [sa, sb]"
      using str_split_once[of "CHR ''-''" sa sb] by simp
    then have "sb = ''x''" by simp
    then show "py_int sa = None \<or> py_int sb = None" using a by simp
  qed
  have f2: "\<forall>sa sb. ''1-2-3'' = sa @ ''-'' @ sb \<and> CHR ''-'' \<notin> set sa \<and> CHR ''-'' \<notin> set sb
                   \<longrightarrow> py_int sa = None \<or> py_int sb = None"
  proof (intro allI impI)
    fix sa sb
    assume h: "''1-2-3'' = sa @ ''-'' @ sb \<and> CHR ''-'' \<notin> set sa \<and> CHR ''-'' \<notin> set sb"
    then have "str_split CHR ''-'' ''1-2-3'' = [sa, sb]"
      using str_split_once[of "CHR ''-''" sa sb] by simp
    then show "py_int sa = None \<or> py_int sb = None" by simp
  qed
  have r1: "port_token ''10-5'' {} = {5 .. 10}"
    using port_range_token[of "''10''" 10 "''5''" 5 "{}" "''5-x''"] a d by simp
  have r2: "port_token ''5-x'' {7} = {7}"
    using port_range_token[of "''10''" 10 "''5''" 5 "{7}" "''5-x''"] f1 by simp
  have r3: "port_token ''1-2-3'' {7} = {7}"
    using port_range_token[of "''10''" 10 "''5''" 5 "{7}" "''1-2-3''"] f2 by simp
  show ?thesis using r1 r2 r3 by simp
qed

text \<open>The result is always sorted and free of duplicates.\<close>

lemma parse_ports_sorted_distinct: "sorted (parse_ports s) \<and> distinct (parse_ports s)"
  by (simp add: parse_ports_def)

text \<open>
  C2. Every port of the result should lie in 1 to 65535. The range branch clamps only
  \<open>a\<close> from below and only \<open>b\<close> from above, so \<^verbatim>\<open>0-0\<close> yields port 0 and
  \<^verbatim>\<open>65536-65537\<close> yields port 65536.
\<close>

theorem parse_ports_out_of_range: "parse_ports ''0-0'' = [0, 1] \<and> parse_ports ''65536-65537'' = [65535, 65536]"
  by code_simp

subsection \<open>The probes\<close>

text \<open>The definitions of the small language of calls, for unfolding.\<close>

lemmas prog_defs = bind_def try_except_def ret_def call_def socket_socket_def close_socket_def

lemma tcp_connect_returns:
  "\<exists>sta d h'. tcp_connect_scan env host prt tm h = (Returns (sta, d), h') \<and> sta \<in> scan_states"
  by (simp add: tcp_connect_scan_def tcp_connect_body_def prog_defs scan_states_def
           split: outcome.splits prod.splits)

lemma tcp_syn_returns:
  "\<exists>sta d h'. tcp_syn_scan env host prt tm h = (Returns (sta, d), h') \<and> sta \<in> scan_states"
proof (cases "SCAPY_AVAILABLE env")
  case False
  then show ?thesis using tcp_connect_returns[of env host prt tm h]
    by (simp add: tcp_syn_scan_def)
next
  case True
  then show ?thesis
    by (simp add: tcp_syn_scan_def tcp_syn_body_def prog_defs scan_states_def
           split: outcome.splits prod.splits option.splits)
qed

lemma udp_returns:
  "\<exists>sta d h'. udp_scan env host prt tm h = (Returns (sta, d), h') \<and> sta \<in> scan_states"
  by (simp add: udp_scan_def udp_body_def prog_defs scan_states_def
           split: outcome.splits prod.splits option.splits)

lemma handler_unknown:
  "body h = (Raises e, h') \<Longrightarrow>
   try_except body (\<lambda>e. ret (''unknown'', e)) h = (Returns (''unknown'', e), h')"
  by (simp add: try_except_def ret_def)

text \<open>
  C4. Whatever the socket library and Scapy answer, each of the three probes returns a
  pair of a state and a diagnostic, the state being one of the five of the enumeration;
  none lets an exception escape. An exception raised inside the \<^verbatim>\<open>try\<close> block of a
  probe becomes the state \<^verbatim>\<open>unknown\<close> with the exception's text as diagnostic.
\<close>

theorem probes_never_raise:
  "(\<exists>sta d h'. tcp_connect_scan env host prt tm h = (Returns (sta, d), h') \<and> sta \<in> scan_states)
   \<and> (\<exists>sta d h'. tcp_syn_scan env host prt tm h = (Returns (sta, d), h') \<and> sta \<in> scan_states)
   \<and> (\<exists>sta d h'. udp_scan env host prt tm h = (Returns (sta, d), h') \<and> sta \<in> scan_states)
   \<and> (tcp_connect_body env host prt tm h = (Raises e, h')
        \<longrightarrow> tcp_connect_scan env host prt tm h = (Returns (''unknown'', e), h'))
   \<and> (SCAPY_AVAILABLE env \<and> tcp_syn_body env host prt tm h = (Raises e, h')
        \<longrightarrow> tcp_syn_scan env host prt tm h = (Returns (''unknown'', e), h'))
   \<and> (SCAPY_AVAILABLE env \<and> udp_body env host prt tm h = (Raises e, h')
        \<longrightarrow> udp_scan env host prt tm h = (Returns (''unknown'', e), h'))"
  using tcp_connect_returns[of env host prt tm h] tcp_syn_returns[of env host prt tm h]
        udp_returns[of env host prt tm h]
  by (simp add: tcp_connect_scan_def tcp_syn_scan_def udp_scan_def handler_unknown)

theorem probes_never_raise_witness:
  "tcp_connect_body unresolved_net ''not-an-ip'' 80 () 0
     = (Raises ''[Errno -2] Name or service not known'', 1)
   \<and> tcp_connect_scan unresolved_net ''not-an-ip'' 80 () 0
     = (Returns (''unknown'', ''[Errno -2] Name or service not known''), 1)"
proof -
  have a: "tcp_connect_body unresolved_net ''not-an-ip'' 80 () 0
     = (Raises ''[Errno -2] Name or service not known'', 1)"
    by (simp add: tcp_connect_body_def prog_defs unresolved_net_def listening_net_def)
  show ?thesis
    using probes_never_raise[of unresolved_net "''not-an-ip''" 80 "()" 0
            "''[Errno -2] Name or service not known''" 1] a by simp
qed

text \<open>
  C1, as stated, fails. When the socket's timeout runs out, \<^verbatim>\<open>connect_ex\<close> returns the
  error code 11 instead of raising, and the probe answers \<^verbatim>\<open>closed\<close> with an empty
  diagnostic, not \<^verbatim>\<open>unknown\<close>.
\<close>

theorem tcp_connect_timeout_closed:
  "sock_connect_ex (errno_net 11) ''10.0.0.5'' 9999 () = Returns 11
   \<and> tcp_connect_scan (errno_net 11) ''10.0.0.5'' 9999 () 0 = (Returns (''closed'', ''''), 0)"
  by (simp add: tcp_connect_scan_def tcp_connect_body_def prog_defs errno_net_def listening_net_def)

text \<open>
  C1, amended. The TCP-connect probe answers \<^verbatim>\<open>open\<close> when \<^verbatim>\<open>connect_ex\<close> returns 0 and
  \<^verbatim>\<open>closed\<close> when it returns any other code: an active refusal, but also a timeout or an
  unreachable host reported as an error code. It answers \<^verbatim>\<open>unknown\<close> with the
  exception's text exactly when one of the four socket calls raises.
\<close>

theorem tcp_connect_states:
  "(socket_new env = Returns () \<and> sock_settimeout env tm = Returns ()
      \<and> sock_connect_ex env host prt tm = Returns code \<and> sock_close env = Returns ()
     \<longrightarrow> fst (tcp_connect_scan env host prt tm h)
           = Returns (if code = 0 then ''open'' else ''closed'', ''''))
   \<and> (socket_new env = Raises e
     \<longrightarrow> fst (tcp_connect_scan env host prt tm h) = Returns (''unknown'', e))
   \<and> (socket_new env = Returns () \<and> sock_settimeout env tm = Raises e
     \<longrightarrow> fst (tcp_connect_scan env host prt tm h) = Returns (''unknown'', e))
   \<and> (socket_new env = Returns () \<and> sock_settimeout env tm = Returns ()
      \<and> sock_connect_ex env host prt tm = Raises e
     \<longrightarrow> fst (tcp_connect_scan env host prt tm h) = Returns (''unknown'', e))
   \<and> (socket_new env = Returns () \<and> sock_settimeout env tm = Returns ()
      \<and> sock_connect_ex env host prt tm = Returns code \<and> sock_close env = Raises e
     \<longrightarrow> fst (tcp_connect_scan env host prt tm h) = Returns (''unknown'', e))"
  by (simp add: tcp_connect_scan_def tcp_connect_body_def prog_defs)

theorem tcp_connect_states_witness:
  "fst (tcp_connect_scan listening_net ''10.0.0.5'' 9999 () 0) = Returns (''open'', '''')
   \<and> fst (tcp_connect_scan (errno_net 111) ''10.0.0.5'' 9999 () 0) = Returns (''closed'', '''')
   \<and> fst (tcp_connect_scan unresolved_net ''not-an-ip'' 80 () 0)
       = Returns (''unknown'', ''[Errno -2] Name or service not known'')"
proof -
  have a: "socket_new listening_net = Returns () \<and> sock_settimeout listening_net () = Returns ()
      \<and> sock_connect_ex listening_net ''10.0.0.5'' 9999 () = Returns 0
      \<and> sock_close listening_net = Returns ()"
    by (simp add: listening_net_def)
  have b: "socket_new (errno_net 111) = Returns () \<and> sock_settimeout (errno_net 111) () = Returns ()
      \<and> sock_connect_ex (errno_net 111) ''10.0.0.5'' 9999 () = Returns 111
      \<and> sock_close (errno_net 111) = Returns ()"
    by (simp add: errno_net_def listening_net_def)
  have c: "socket_new unresolved_net = Returns () \<and> sock_settimeout unresolved_net () = Returns ()
      \<and> sock_connect_ex unresolved_net ''not-an-ip'' 80 ()
          = Raises ''[Errno -2] Name or service not known''"
    by (simp add: unresolved_net_def listening_net_def)
  have r1: "fst (tcp_connect_scan listening_net ''10.0.0.5'' 9999 () 0) = Returns (''open'', '''')"
    using tcp_connect_states[of listening_net "()" "''10.0.0.5''" 9999 0 0] a by simp
  have r2: "fst (tcp_connect_scan (errno_net 111) ''10.0.0.5'' 9999 () 0) = Returns (''closed'', '''')"
    using tcp_connect_states[of "errno_net 111" "()" "''10.0.0.5''" 9999 111 0] b by simp
  have r3: "fst (tcp_connect_scan unresolved_net ''not-an-ip'' 80 () 0)
       = Returns (''unknown'', ''[Errno -2] Name or service not known'')"
    using tcp_connect_states[of unresolved_net "()" "''not-an-ip''" 80 0 0
            "''[Errno -2] Name or service not known''"] c by simp
  show ?thesis using r1 r2 r3 by simp
qed

text \<open>
  C9. Without Scapy the SYN probe is the TCP-connect probe on the same arguments.
\<close>

theorem tcp_syn_fallback:
  "\<not> SCAPY_AVAILABLE env \<Longrightarrow>
   tcp_syn_scan env host prt tm = tcp_connect_scan env host prt tm"
  by (simp add: tcp_syn_scan_def)

theorem tcp_syn_fallback_witness:
  "\<not> SCAPY_AVAILABLE (errno_net 111)
   \<and> tcp_syn_scan (errno_net 111) ''10.0.0.5'' 9999 () 0 = (Returns (''closed'', ''''), 0)"
proof -
  have a: "\<not> SCAPY_AVAILABLE (errno_net 111)" by (simp add: errno_net_def listening_net_def)
  have b: "tcp_connect_scan (errno_net 111) ''10.0.0.5'' 9999 () 0 = (Returns (''closed'', ''''), 0)"
    by (simp add: tcp_connect_scan_def tcp_connect_body_def prog_defs errno_net_def listening_net_def)
  show ?thesis using tcp_syn_fallback[OF a, of "''10.0.0.5''" 9999 "()"] a b by simp
qed

text \<open>
  C5, amended. With Scapy available and the packet sent: no reply gives \<^verbatim>\<open>filtered\<close>
  with the diagnostic \<^verbatim>\<open>Sem resposta\<close>; a TCP reply with SYN and ACK set gives
  \<^verbatim>\<open>open\<close>; a TCP reply with RST and ACK set, and not both SYN and ACK, gives
  \<^verbatim>\<open>closed\<close>; every other reply gives \<^verbatim>\<open>filtered\<close> with the diagnostic
  \<^verbatim>\<open>Resposta inesperada\<close>.
\<close>

theorem tcp_syn_states:
  "(SCAPY_AVAILABLE env \<and> scapy_build env (TcpSyn host prt) = Returns ()
      \<and> scapy_sr1 env (TcpSyn host prt) tm = Returns None
     \<longrightarrow> fst (tcp_syn_scan env host prt tm h) = Returns (''filtered'', ''Sem resposta''))
   \<and> (SCAPY_AVAILABLE env \<and> scapy_build env (TcpSyn host prt) = Returns ()
      \<and> scapy_sr1 env (TcpSyn host prt) tm = Returns (Some r)
     \<longrightarrow> fst (tcp_syn_scan env host prt tm h) =
           Returns (case tcp_flags r of
                      None \<Rightarrow> (''filtered'', ''Resposta inesperada'')
                    | Some flags \<Rightarrow>
                        if and flags 0x12 = 0x12 then (''open'', '''')
                        else if and flags 0x14 = 0x14 then (''closed'', '''')
                        else (''filtered'', ''Resposta inesperada'')))"
  by (simp add: tcp_syn_scan_def tcp_syn_body_def prog_defs split: option.splits)

theorem tcp_syn_states_witness:
  "fst (tcp_syn_scan (raw_net None) ''10.0.0.5'' 80 () 0) = Returns (''filtered'', ''Sem resposta'')
   \<and> fst (tcp_syn_scan (raw_net (Some \<lparr> tcp_flags = Some 0x12, has_udp = False \<rparr>))
             ''10.0.0.5'' 80 () 0) = Returns (''open'', '''')
   \<and> fst (tcp_syn_scan (raw_net (Some \<lparr> tcp_flags = Some 0x14, has_udp = False \<rparr>))
             ''10.0.0.5'' 80 () 0) = Returns (''closed'', '''')
   \<and> fst (tcp_syn_scan (raw_net (Some \<lparr> tcp_flags = Some 0x04, has_udp = False \<rparr>))
             ''10.0.0.5'' 80 () 0) = Returns (''filtered'', ''Resposta inesperada'')"
proof -
  have a: "SCAPY_AVAILABLE (raw_net x) \<and> scapy_build (raw_net x) (TcpSyn ''10.0.0.5'' 80) = Returns ()
      \<and> scapy_sr1 (raw_net x) (TcpSyn ''10.0.0.5'' 80) () = Returns x" for x
    by (simp add: raw_net_def listening_net_def)
  have r1: "fst (tcp_syn_scan (raw_net None) ''10.0.0.5'' 80 () 0)
              = Returns (''filtered'', ''Sem resposta'')"
    using tcp_syn_states[of "raw_net None" "''10.0.0.5''" 80 "()" 0] a[of None] by simp
  have r2: "fst (tcp_syn_scan (raw_net (Some \<lparr> tcp_flags = Some 0x12, has_udp = False \<rparr>))
             ''10.0.0.5'' 80 () 0) = Returns (''open'', '''')"
    using tcp_syn_states[of "raw_net (Some \<lparr> tcp_flags = Some 0x12, has_udp = False \<rparr>)"
            "''10.0.0.5''" 80 "()" 0 "\<lparr> tcp_flags = Some 0x12, has_udp = False \<rparr>"]
          a[of "Some \<lparr> tcp_flags = Some 0x12, has_udp = False \<rparr>"] by simp
  have r3: "fst (tcp_syn_scan (raw_net (Some \<lparr> tcp_flags = Some 0x14, has_udp = False \<rparr>))
             ''10.0.0.5'' 80 () 0) = Returns (''closed'', '''')"
    using tcp_syn_states[of "raw_net (Some \<lparr> tcp_flags = Some 0x14, has_udp = False \<rparr>)"
            "''10.0.0.5''" 80 "()" 0 "\<lparr> tcp_flags = Some 0x14, has_udp = False \<rparr>"]
          a[of "Some \<lparr> tcp_flags = Some 0x14, has_udp = False \<rparr>"] by simp
  have r4: "fst (tcp_syn_scan (raw_net (Some \<lparr> tcp_flags = Some 0x04, has_udp = False \<rparr>))
             ''10.0.0.5'' 80 () 0) = Returns (''filtered'', ''Resposta inesperada'')"
    using tcp_syn_states[of "raw_net (Some \<lparr> tcp_flags = Some 0x04, has_udp = False \<rparr>)"
            "''10.0.0.5''" 80 "()" 0 "\<lparr> tcp_flags = Some 0x04, has_udp = False \<rparr>"]
          a[of "Some \<lparr> tcp_flags = Some 0x04, has_udp = False \<rparr>"] by simp
  show ?thesis using r1 r2 r3 r4 by simp
qed

text \<open>
  C5, as stated, fails twice. The diagnostics are the Portuguese texts, not
  \<^verbatim>\<open>no response\<close> and \<^verbatim>\<open>unexpected response\<close>; and the test for SYN and ACK comes
  first, so a reply with the flags 0x16 (SYN, RST and ACK) has RST and ACK both set and
  is still reported \<^verbatim>\<open>open\<close>.
\<close>

theorem tcp_syn_flags_precedence:
  "tcp_syn_scan (raw_net None) ''10.0.0.5'' 80 () 0 = (Returns (''filtered'', ''Sem resposta''), 0)
   \<and> ''Sem resposta'' \<noteq> ''no response''
   \<and> and (0x16 :: nat) 0x14 = 0x14
   \<and> tcp_syn_scan (raw_net (Some \<lparr> tcp_flags = Some 0x16, has_udp = False \<rparr>)) ''10.0.0.5'' 80 () 0
       = (Returns (''open'', ''''), 0)"
  by (simp add: tcp_syn_scan_def tcp_syn_body_def prog_defs raw_net_def listening_net_def)

text \<open>
  C7. A probe should give back the socket it opened on every path. When
  \<^verbatim>\<open>connect_ex\<close> raises, as it does for a host name that does not resolve, the probe
  jumps to its handler past \<^verbatim>\<open>sock.close()\<close>: it returns with one socket still open,
  where the successful path returns with none.
\<close>

theorem tcp_connect_leaks_socket:
  "tcp_connect_scan unresolved_net ''not-an-ip'' 80 () 0
     = (Returns (''unknown'', ''[Errno -2] Name or service not known''), 1)
   \<and> tcp_connect_scan listening_net ''10.0.0.5'' 80 () 0 = (Returns (''open'', ''''), 0)"
  by (simp add: tcp_connect_scan_def tcp_connect_body_def prog_defs unresolved_net_def listening_net_def)

subsection \<open>The target parser\<close>

lemma target_token_no_fallback:
  assumes "\<forall>s. CHR ''/'' \<in> set s \<longrightarrow> \<not> ip_address lib s"
  shows "target_token lib token out = target_token (lib \<lparr> ip_address := (\<lambda>_. False) \<rparr>) token out"
  using assms by (auto simp: target_token_def Let_def split: option.splits)

lemma fold_target_no_fallback:
  assumes "\<forall>s. CHR ''/'' \<in> set s \<longrightarrow> \<not> ip_address lib s"
  shows "fold (target_token lib) toks out
         = fold (target_token (lib \<lparr> ip_address := (\<lambda>_. False) \<rparr>)) toks out"
proof (induction toks arbitrary: out)
  case Nil
  show ?case by simp
next
  case (Cons t toks)
  show ?case using target_token_no_fallback[OF assms, of t out] Cons.IH by simp
qed

lemma target_token_no_slash:
  assumes "\<forall>s. CHR ''/'' \<in> set s \<longrightarrow> \<not> ip_address lib s"
    and "\<forall>s hs. ip_network lib s = Some hs \<longrightarrow> (\<forall>h\<in>set hs. CHR ''/'' \<notin> set h)"
    and "\<forall>x\<in>set out. CHR ''/'' \<notin> set x"
  shows "\<forall>x\<in>set (target_token lib token out). CHR ''/'' \<notin> set x"
proof (cases "ip_network lib (strip token)")
  case None
  then show ?thesis using assms(1,3) by (auto simp: target_token_def Let_def)
next
  case (Some hs)
  with assms(2) have "\<forall>h\<in>set hs. CHR ''/'' \<notin> set h" by blast
  with Some show ?thesis using assms(3) by (auto simp: target_token_def Let_def)
qed

lemma fold_target_no_slash:
  assumes "\<forall>s. CHR ''/'' \<in> set s \<longrightarrow> \<not> ip_address lib s"
    and "\<forall>s hs. ip_network lib s = Some hs \<longrightarrow> (\<forall>h\<in>set hs. CHR ''/'' \<notin> set h)"
  shows "(\<forall>x\<in>set out. CHR ''/'' \<notin> set x)
         \<Longrightarrow> \<forall>x\<in>set (fold (target_token lib) toks out). CHR ''/'' \<notin> set x"
proof (induction toks arbitrary: out)
  case Nil
  then show ?case by simp
next
  case (Cons t toks)
  from target_token_no_slash[OF assms Cons.prems, of t]
  have "\<forall>x\<in>set (target_token lib t out). CHR ''/'' \<notin> set x" .
  from Cons.IH[OF this] show ?case by simp
qed

text \<open>
  C10. The library accepts no address text with a slash in it; that is a fact about
  \<^verbatim>\<open>ipaddress\<close>, taken as the hypothesis. Then a token with a slash that is not a
  network is dropped, the fallback that would append it never fires (the parser
  behaves as with a library whose \<^verbatim>\<open>ip_address\<close> rejects everything), and, the host
  texts of a network having no slash either, no text of the output has a slash.
\<close>

theorem slash_token_dropped:
  assumes "\<forall>s. CHR ''/'' \<in> set s \<longrightarrow> \<not> ip_address lib s"
  shows "(CHR ''/'' \<in> set (strip token) \<and> ip_network lib (strip token) = None
            \<longrightarrow> target_token lib token out = out)
       \<and> parse_targets lib text = parse_targets (lib \<lparr> ip_address := (\<lambda>_. False) \<rparr>) text
       \<and> ((\<forall>s hs. ip_network lib s = Some hs \<longrightarrow> (\<forall>h\<in>set hs. CHR ''/'' \<notin> set h))
            \<longrightarrow> (\<forall>x\<in>set (parse_targets lib text). CHR ''/'' \<notin> set x))"
proof (intro conjI impI)
  assume "CHR ''/'' \<in> set (strip token) \<and> ip_network lib (strip token) = None"
  then show "target_token lib token out = out"
    using assms by (auto simp: target_token_def Let_def)
next
  show "parse_targets lib text = parse_targets (lib \<lparr> ip_address := (\<lambda>_. False) \<rparr>) text"
    unfolding parse_targets_def by (rule fold_target_no_fallback[OF assms])
next
  assume h: "\<forall>s hs. ip_network lib s = Some hs \<longrightarrow> (\<forall>h\<in>set hs. CHR ''/'' \<notin> set h)"
  show "\<forall>x\<in>set (parse_targets lib text). CHR ''/'' \<notin> set x"
    unfolding parse_targets_def by (rule fold_target_no_slash[OF assms h]) simp
qed

theorem slash_token_dropped_witness:
  "target_token tiny_ipaddress '' bad/24 '' [''10.0.0.1''] = [''10.0.0.1'']
   \<and> parse_targets tiny_ipaddress ''10.0.0.1, 192.168.1.0/30; bad/24,, 10.0.0.1/xx ,not-an-ip''
       = [''10.0.0.1'', ''192.168.1.1'', ''192.168.1.2'', ''not-an-ip'']
   \<and> list_all (\<lambda>x. CHR ''/'' \<notin> set x)
         (parse_targets tiny_ipaddress
            ''10.0.0.1, 192.168.1.0/30; bad/24,, 10.0.0.1/xx ,not-an-ip'')"
proof -
  have a: "\<forall>s. CHR ''/'' \<in> set s \<longrightarrow> \<not> ip_address tiny_ipaddress s"
    by (auto simp: tiny_ipaddress_def)
  have b: "\<forall>s hs. ip_network tiny_ipaddress s = Some hs \<longrightarrow> (\<forall>h\<in>set hs. CHR ''/'' \<notin> set h)"
    by (auto simp: tiny_ipaddress_def split: if_splits)
  have c: "strip '' bad/24 '' = ''bad/24''" by code_simp
  have d: "CHR ''/'' \<in> set (strip '' bad/24 '') \<and> ip_network tiny_ipaddress (strip '' bad/24 '') = None"
    unfolding c by (simp add: tiny_ipaddress_def)
  have e: "parse_targets tiny_ipaddress ''10.0.0.1, 192.168.1.0/30; bad/24,, 10.0.0.1/xx ,not-an-ip''
       = [''10.0.0.1'', ''192.168.1.1'', ''192.168.1.2'', ''not-an-ip'']"
    by code_simp
  note t = slash_token_dropped[OF a, of "'' bad/24 ''" "[''10.0.0.1'']"
             "''10.0.0.1, 192.168.1.0/30; bad/24,, 10.0.0.1/xx ,not-an-ip''"]
  from t d have r1: "target_token tiny_ipaddress '' bad/24 '' [''10.0.0.1''] = [''10.0.0.1'']"
    by blast
  from t b have r3: "\<forall>x\<in>set (parse_targets tiny_ipaddress
                      ''10.0.0.1, 192.168.1.0/30; bad/24,, 10.0.0.1/xx ,not-an-ip'').
         CHR ''/'' \<notin> set x"
    by blast
  from r3 have r4: "list_all (\<lambda>x. CHR ''/'' \<notin> set x)
         (parse_targets tiny_ipaddress
            ''10.0.0.1, 192.168.1.0/30; bad/24,, 10.0.0.1/xx ,not-an-ip'')"
    by (simp only: list_all_iff)
  show ?thesis using r1 e r4 by blast
qed

subsection \<open>What the exports write\<close>







subsection \<open>The scan engine\<close>

text \<open>
  Every step of a thread keeps the bookkeeping, because a probe always returns.
\<close>

lemma run_probe_returns:
  "\<exists>sta d h'. run_probe env st j h = (Returns (sta, d), h')"
proof -
  obtain t pr p where j: "j = (t, pr, p)" by (cases j) auto
  show ?thesis
    using tcp_connect_returns[of env t p "timeout st" h] tcp_syn_returns[of env t p "timeout st" h]
          udp_returns[of env t p "timeout st" h]
    by (auto simp: run_probe_def j)
qed

lemma held_update:
  "i < length ws \<Longrightarrow>
   mset (concat (map held (ws[i := w]))) + mset (held (ws ! i))
     = mset (concat (map held ws)) + mset (held w)"
proof (induction ws arbitrary: i)
  case Nil
  then show ?case by simp
next
  case (Cons x xs)
  show ?case
  proof (cases i)
    case 0
    then show ?thesis by simp
  next
    case (Suc k)
    with Cons.prems have "k < length xs" by simp
    from Cons.IH[OF this] show ?thesis using Suc by simp
  qed
qed

lemma set_update_exited:
  "i < length ws \<Longrightarrow> Exited \<in> set (ws[i := w]) \<Longrightarrow> w \<noteq> Exited \<Longrightarrow> Exited \<in> set ws"
  by (metis in_set_conv_nth length_list_update nth_list_update)

lemma triple_simp [simp]:
  "triple \<lparr> target = a, proto = b, port = c, state = d, info = e \<rparr> = (a, b, c)"
  by (simp add: triple_def)

lemma worker_step_accounted:
  assumes inv: "accounted jobs s" and stp: "worker_step env st i s = Some s'"
  shows "accounted jobs s'"
proof -
  from stp have len: "i < length (workers s)"
    by (auto simp: worker_step_def split: if_splits)
  from inv have ns: "\<not> stop_event s" and ne: "workers s \<noteq> []"
    and bal: "mset (map triple (results s)) + mset (taskq s)
          + mset (concat (map held (workers s))) = mset jobs"
    and emp: "Exited \<in> set (workers s) \<longrightarrow> taskq s = []"
    by (simp_all add: accounted_def)
  show ?thesis
  proof (cases "workers s ! i")
    case Exited
    with stp len show ?thesis by (simp add: worker_step_def)
  next
    case LoopHead
    show ?thesis
    proof (cases "taskq s")
      case Nil
      with stp len ns LoopHead have s': "s' = s \<lparr> workers := (workers s)[i := Exited] \<rparr>"
        by (simp add: worker_step_def)
      from held_update[OF len, of Exited] LoopHead
      have "mset (concat (map held ((workers s)[i := Exited]))) = mset (concat (map held (workers s)))"
        by simp
      with ns ne bal Nil show ?thesis by (simp add: accounted_def s')
    next
      case (Cons j q)
      with stp len ns LoopHead
      have s': "s' = s \<lparr> taskq := q, workers := (workers s)[i := Dequeued j] \<rparr>"
        by (simp add: worker_step_def)
      from held_update[OF len, of "Dequeued j"] LoopHead
      have h: "mset (concat (map held ((workers s)[i := Dequeued j])))
                 = mset (concat (map held (workers s))) + {#j#}"
        by simp
      from emp Cons have "Exited \<notin> set (workers s)" by auto
      with set_update_exited[OF len, of "Dequeued j"]
      have "Exited \<notin> set ((workers s)[i := Dequeued j])" by auto
      with ns ne bal Cons h show ?thesis by (simp add: accounted_def s')
    qed
  next
    case (Dequeued j)
    with stp len ns have s': "s' = s \<lparr> workers := (workers s)[i := Probing j] \<rparr>"
      by (simp add: worker_step_def)
    from held_update[OF len, of "Probing j"] Dequeued
    have h: "mset (concat (map held ((workers s)[i := Probing j])))
               = mset (concat (map held (workers s)))"
      by simp
    from set_update_exited[OF len, of "Probing j"] emp
    have "Exited \<in> set ((workers s)[i := Probing j]) \<longrightarrow> taskq s = []" by auto
    with ns ne bal h show ?thesis by (simp add: accounted_def s')
  next
    case (Probing j)
    obtain sta d h' where pr: "run_probe env st j (handles s) = (Returns (sta, d), h')"
      using run_probe_returns by blast
    with stp len Probing
    have s': "s' = s \<lparr> results := results s @
                           [\<lparr> target = fst j, proto = fst (snd j), port = snd (snd j),
                              state = sta, info = d \<rparr>],
                         handles := h',
                         workers := (workers s)[i := LoopHead] \<rparr>"
      by (simp add: worker_step_def)
    from held_update[OF len, of LoopHead] Probing
    have h: "mset (concat (map held ((workers s)[i := LoopHead]))) + {#j#}
               = mset (concat (map held (workers s)))"
      by simp
    from set_update_exited[OF len, of LoopHead] emp
    have e: "Exited \<in> set ((workers s)[i := LoopHead]) \<longrightarrow> taskq s = []" by auto
    from bal h have "mset (map triple (results s)) + {#j#} + mset (taskq s)
          + mset (concat (map held ((workers s)[i := LoopHead]))) = mset jobs"
      by (metis (no_types, lifting) add.assoc add.commute)
    with ns ne e show ?thesis by (simp add: accounted_def s')
  qed
qed

lemma exec_accounted:
  "accounted jobs s \<Longrightarrow> Cancel \<notin> set sched \<Longrightarrow> exec env st sched s = Some s'
   \<Longrightarrow> accounted jobs s'"
proof (induction sched arbitrary: s)
  case Nil
  then show ?case by simp
next
  case (Cons a sched)
  from Cons.prems(2) obtain i where a: "a = Worker i" by (cases a) auto
  from Cons.prems(3) a obtain s1 where s1: "worker_step env st i s = Some s1"
    and rest: "exec env st sched s1 = Some s'"
    by (auto split: option.splits)
  from worker_step_accounted[OF Cons.prems(1) s1] have "accounted jobs s1" .
  from Cons.IH[OF this _ rest] Cons.prems(2) show ?case by simp
qed

lemma start_session_accounted: "accounted jobs (start_session jobs n)"
  by (simp add: accounted_def start_session_def)

lemma completed_held: "completed s \<Longrightarrow> concat (map held (workers s)) = []"
  by (auto simp: completed_def list_all_iff)

lemma accounted_completed:
  assumes "accounted jobs s" and "completed s"
  shows "mset (map triple (results s)) = mset jobs"
proof -
  from assms(1) have ne: "workers s \<noteq> []" by (simp add: accounted_def)
  then obtain w where "w \<in> set (workers s)" by (cases "workers s") auto
  with assms(2) have "Exited \<in> set (workers s)" by (auto simp: completed_def list_all_iff)
  with assms(1) have "taskq s = []" by (simp add: accounted_def)
  with assms completed_held[OF assms(2)] show ?thesis by (simp add: accounted_def)
qed

lemma length_enqueue_jobs:
  "length (enqueue_jobs targets ports tcp_var udp_var)
     = length targets * length ports * (of_bool tcp_var + of_bool udp_var)"
proof -
  have inner: "length (concat (map (\<lambda>p.
         (if tcp_var then [(t, ''tcp'', p)] else []) @
         (if udp_var then [(t, ''udp'', p)] else [])) ports))
       = length ports * (of_bool tcp_var + of_bool udp_var)" for t :: string
    by (induction ports) (simp_all add: algebra_simps)
  show ?thesis unfolding enqueue_jobs_def
    by (induction targets) (simp_all add: inner algebra_simps)
qed

lemma enqueue_inner_set:
  "x \<in> set (concat (map (\<lambda>p.
         (if tcp_var then [(t, ''tcp'', p)] else []) @
         (if udp_var then [(t, ''udp'', p)] else [])) ports))
   \<Longrightarrow> fst x = t \<and> snd (snd x) \<in> set ports"
  by (induction ports) (auto split: if_splits)

lemma enqueue_inner_distinct:
  "distinct ports \<Longrightarrow>
   distinct (concat (map (\<lambda>p.
         (if tcp_var then [(t, ''tcp'', p)] else []) @
         (if udp_var then [(t, ''udp'', p)] else [])) ports))"
proof (induction ports)
  case Nil
  then show ?case by simp
next
  case (Cons p ports)
  then have "p \<notin> set ports" and "distinct ports" by simp_all
  with Cons.IH enqueue_inner_set[of _ tcp_var t udp_var ports]
  show ?case by (auto split: if_splits)
qed

lemma enqueue_jobs_fst:
  "x \<in> set (enqueue_jobs targets ports tcp_var udp_var) \<Longrightarrow> fst x \<in> set targets"
  unfolding enqueue_jobs_def
  by (induction targets) (auto dest: enqueue_inner_set)

lemma enqueue_jobs_distinct:
  "distinct targets \<Longrightarrow> distinct ports \<Longrightarrow>
   distinct (enqueue_jobs targets ports tcp_var udp_var)"
proof (induction targets)
  case Nil
  then show ?case by (simp add: enqueue_jobs_def)
next
  case (Cons t targets)
  then have nt: "t \<notin> set targets" and d: "distinct (enqueue_jobs targets ports tcp_var udp_var)"
    by simp_all
  let ?inner = "concat (map (\<lambda>p.
         (if tcp_var then [(t, ''tcp'', p)] else []) @
         (if udp_var then [(t, ''udp'', p)] else [])) ports)"
  have split: "enqueue_jobs (t # targets) ports tcp_var udp_var
                 = ?inner @ enqueue_jobs targets ports tcp_var udp_var"
    by (simp add: enqueue_jobs_def)
  have disj: "set ?inner \<inter> set (enqueue_jobs targets ports tcp_var udp_var) = {}"
  proof (rule ccontr)
    assume "set ?inner \<inter> set (enqueue_jobs targets ports tcp_var udp_var) \<noteq> {}"
    then obtain x where a: "x \<in> set ?inner"
      and b: "x \<in> set (enqueue_jobs targets ports tcp_var udp_var)" by blast
    from enqueue_inner_set[OF a] enqueue_jobs_fst[OF b] nt show False by simp
  qed
  from enqueue_inner_distinct[OF Cons.prems(2), of tcp_var t udp_var] d disj
  show ?case unfolding split by simp
qed

text \<open>
  C3, amended. In a run that was not cancelled and in which every thread has left the
  loop, the number of results is the number of targets times the number of ports times
  the number of enabled protocols, and the triples of the results are, as a multiset,
  exactly the jobs that were enqueued: each enqueued job ran exactly once. The triples
  are free of duplicates when the target list and the port list are.
\<close>

theorem scan_runs_every_job:
  assumes "exec env st sched
             (start_session (enqueue_jobs targets ports tcp_var udp_var) num_threads) = Some s"
    and "Cancel \<notin> set sched"
    and "completed s"
  shows "length (results s) = length targets * length ports * (of_bool tcp_var + of_bool udp_var)
       \<and> mset (map triple (results s)) = mset (enqueue_jobs targets ports tcp_var udp_var)
       \<and> (distinct targets \<and> distinct ports \<longrightarrow> distinct (map triple (results s)))"
proof -
  let ?jobs = "enqueue_jobs targets ports tcp_var udp_var"
  from exec_accounted[OF start_session_accounted assms(2) assms(1)]
  have "accounted ?jobs s" .
  from accounted_completed[OF this assms(3)]
  have m: "mset (map triple (results s)) = mset ?jobs" .
  then have "length (map triple (results s)) = length ?jobs"
    by (rule mset_eq_length)
  then have l: "length (results s)
                  = length targets * length ports * (of_bool tcp_var + of_bool udp_var)"
    by (simp add: length_enqueue_jobs)
  have "distinct (map triple (results s))" if "distinct targets \<and> distinct ports"
  proof -
    from that have "distinct ?jobs" by (simp add: enqueue_jobs_distinct)
    with m show ?thesis by (metis mset_eq_imp_distinct_iff)
  qed
  with m l show ?thesis by blast
qed

text \<open>
  C3, as stated, fails. The target parser keeps a target that is named twice, so the
  queue holds the same triple twice and a completed run, never cancelled, has it twice
  among its results.
\<close>

theorem duplicate_target_runs_twice:
  "parse_targets tiny_ipaddress ''10.0.0.5,10.0.0.5'' = [''10.0.0.5'', ''10.0.0.5'']
   \<and> exec listening_net connect_settings
        [Worker 0, Worker 0, Worker 0, Worker 0, Worker 0, Worker 0, Worker 0]
        (start_session (enqueue_jobs [''10.0.0.5'', ''10.0.0.5''] [80] True False) 1)
   = Some \<lparr> taskq = [],
            results = [\<lparr> target = ''10.0.0.5'', proto = ''tcp'', port = 80,
                         state = ''open'', info = '''' \<rparr>,
                       \<lparr> target = ''10.0.0.5'', proto = ''tcp'', port = 80,
                         state = ''open'', info = '''' \<rparr>],
            stop_event = False, handles = 0, workers = [Exited] \<rparr>
   \<and> completed \<lparr> taskq = [],
            results = [\<lparr> target = ''10.0.0.5'', proto = ''tcp'', port = 80,
                         state = ''open'', info = '''' \<rparr>,
                       \<lparr> target = ''10.0.0.5'', proto = ''tcp'', port = 80,
                         state = ''open'', info = '''' \<rparr>],
            stop_event = False, handles = 0, workers = [Exited] \<rparr>
   \<and> \<not> distinct (map triple
            [\<lparr> target = ''10.0.0.5'', proto = ''tcp'', port = 80,
                state = ''open'', info = '''' \<rparr>,
             \<lparr> target = ''10.0.0.5'', proto = ''tcp'', port = 80,
                state = ''open'', info = '''' \<rparr>])"
proof -
  have "parse_targets tiny_ipaddress ''10.0.0.5,10.0.0.5'' = [''10.0.0.5'', ''10.0.0.5'']"
    by code_simp
  then show ?thesis
    by (simp add: start_session_def enqueue_jobs_def worker_step_def run_probe_def
          completed_def connect_settings_def tcp_connect_scan_def tcp_connect_body_def
          prog_defs listening_net_def)
qed

theorem scan_runs_every_job_witness:
  "exec listening_net connect_settings
        [Worker 0, Worker 1, Worker 1, Worker 0, Worker 1, Worker 0, Worker 0,
         Worker 0, Worker 0, Worker 1, Worker 1, Worker 1, Worker 0, Worker 1]
        (start_session (enqueue_jobs [''10.0.0.5'', ''10.0.0.9''] [80] True True) 2)
   = Some \<lparr> taskq = [],
            results = [\<lparr> target = ''10.0.0.5'', proto = ''udp'', port = 80,
                         state = ''unknown'', info = scapy_missing \<rparr>,
                       \<lparr> target = ''10.0.0.5'', proto = ''tcp'', port = 80,
                         state = ''open'', info = '''' \<rparr>,
                       \<lparr> target = ''10.0.0.9'', proto = ''tcp'', port = 80,
                         state = ''open'', info = '''' \<rparr>,
                       \<lparr> target = ''10.0.0.9'', proto = ''udp'', port = 80,
                         state = ''unknown'', info = scapy_missing \<rparr>],
            stop_event = False, handles = 0, workers = [Exited, Exited] \<rparr>
   \<and> length [\<lparr> target = ''10.0.0.5'', proto = ''udp'', port = 80,
                         state = ''unknown'', info = scapy_missing \<rparr>,
                       \<lparr> target = ''10.0.0.5'', proto = ''tcp'', port = 80,
                         state = ''open'', info = '''' \<rparr>,
                       \<lparr> target = ''10.0.0.9'', proto = ''tcp'', port = 80,
                         state = ''open'', info = '''' \<rparr>,
                       \<lparr> target = ''10.0.0.9'', proto = ''udp'', port = 80,
                         state = ''unknown'', info = scapy_missing \<rparr>]
       = length [''10.0.0.5'', ''10.0.0.9''] * length [80 :: int] * (of_bool True + of_bool True)
   \<and> distinct [(''10.0.0.5'', ''udp'', 80 :: int), (''10.0.0.5'', ''tcp'', 80),
               (''10.0.0.9'', ''tcp'', 80), (''10.0.0.9'', ''udp'', 80)]"
proof -
  let ?final = "\<lparr> taskq = [],
            results = [\<lparr> target = ''10.0.0.5'', proto = ''udp'', port = 80,
                         state = ''unknown'', info = scapy_missing \<rparr>,
                       \<lparr> target = ''10.0.0.5'', proto = ''tcp'', port = 80,
                         state = ''open'', info = '''' \<rparr>,
                       \<lparr> target = ''10.0.0.9'', proto = ''tcp'', port = 80,
                         state = ''open'', info = '''' \<rparr>,
                       \<lparr> target = ''10.0.0.9'', proto = ''udp'', port = 80,
                         state = ''unknown'', info = scapy_missing \<rparr>],
            stop_event = False, handles = 0, workers = [Exited, Exited] \<rparr>"
  let ?sched = "[Worker 0, Worker 1, Worker 1, Worker 0, Worker 1, Worker 0, Worker 0,
         Worker 0, Worker 0, Worker 1, Worker 1, Worker 1, Worker 0, Worker 1]"
  have run: "exec listening_net connect_settings ?sched
        (start_session (enqueue_jobs [''10.0.0.5'', ''10.0.0.9''] [80] True True) 2)
        = Some ?final"
    by (simp add: start_session_def enqueue_jobs_def worker_step_def run_probe_def
          connect_settings_def tcp_connect_scan_def tcp_connect_body_def udp_scan_def
          prog_defs listening_net_def numeral_2_eq_2)
  have nc: "Cancel \<notin> set ?sched" by simp
  have co: "completed ?final" by (simp add: completed_def)
  have ds: "distinct [''10.0.0.5'', ''10.0.0.9''] \<and> distinct [80 :: int]" by simp
  from scan_runs_every_job[OF run nc co] ds
  have "length (results ?final)
          = length [''10.0.0.5'', ''10.0.0.9''] * length [80 :: int] * (of_bool True + of_bool True)"
    and "distinct (map triple (results ?final))"
    by blast+
  with run show ?thesis by simp
qed

end
